theory Spec2Isabelle
  imports Complex_Main
begin

section \<open>Python values shared by the client and the two agent servers\<close>

text \<open>
  Exceptions raised by the libraries the repository calls (httpx, the A2A SDK, the
  generation backends). \<open>httpx.TimeoutException\<close> is a subclass of
  \<open>httpx.HTTPError\<close>; the two are kept apart because \<open>run\<close> has a handler for
  each, the timeout handler first. \<open>A2AClientError\<close> stands for the error classes of
  the SDK's client (\<open>a2a.client\<close>): they are not httpx exceptions, and the client
  raises them in place of the httpx exception it caught, for a timeout and for a
  transport failure alike. Every exception carries its \<open>str(e)\<close>.
\<close>

datatype py_exn =
    TimeoutException string
  | HTTPError string
  | A2AClientError string
  | AttributeError string
  | ValueError string
  | KeyError string
  | IndexError string
  | OtherException string

fun str_exn :: "py_exn \<Rightarrow> string" where
  "str_exn (TimeoutException m) = m"
| "str_exn (HTTPError m) = m"
| "str_exn (A2AClientError m) = m"
| "str_exn (AttributeError m) = m"
| "str_exn (ValueError m) = m"
| "str_exn (KeyError m) = m"
| "str_exn (IndexError m) = m"
| "str_exn (OtherException m) = m"

text \<open>
  An attribute of a Python object is either absent (\<open>hasattr\<close> is false, reading it
  raises \<open>AttributeError\<close>) or present with a value.
\<close>

datatype 'a attr = Absent | Present 'a

text \<open>
  \<open>Part(root=TextPart(text=...))\<close>. Only a text part has the attribute \<open>text\<close>;
  \<open>NoRoot\<close> is an object without the attribute \<open>root\<close>.
\<close>

datatype part_root = TextPart string | NonTextPart

datatype part = Part part_root | NoRoot

text \<open>\<open>hasattr(part, 'root') and hasattr(part.root, 'text')\<close>, then \<open>part.root.text\<close>.\<close>

fun part_text :: "part \<Rightarrow> string option" where
  "part_text (Part (TextPart s)) = Some s"
| "part_text (Part NonTextPart) = None"
| "part_text NoRoot = None"

section \<open>client/a2a\_tools\_.py: A2ARemoteAgentTool.run\<close>

subsection \<open>The response tree that \<open>run\<close> navigates\<close>

text \<open>
  For the list-valued attributes \<open>parts\<close> and \<open>artifacts\<close>, and for \<open>message\<close>,
  the source tests \<open>hasattr(x, 'a') and x.a\<close>, so an absent attribute and the value
  \<open>None\<close> behave alike: both are \<open>None\<close> here. \<open>task_result.id\<close> is read without a
  guard, and so is \<open>response.root.result\<close>. A task result laid out as the comment of
  lines 281-292 has it (\<open>id\<close>, \<open>context_id\<close>, \<open>state\<close>, \<open>artifacts\<close>) has no attribute
  \<open>message\<close>: its \<open>result_message\<close> is \<open>None\<close>.
\<close>

record artifact =
  artifact_name :: "string option"
  artifact_parts :: "part list option"

record result_message =
  message_parts :: "part list option"

record task_result =
  result_id :: "string attr"
  result_artifacts :: "artifact list option"
  result_message :: "result_message option"

datatype response_root = Root "task_result option attr"

datatype response = Response "response_root option"

text \<open>
  The test \<open>hasattr(x, 'parts') and x.parts and len(x.parts) > 0\<close> followed by the read
  of \<open>x.parts[0]\<close> and of its text, as the source does for the first artifact (lines
  311-316) and for the message (lines 320-323). \<open>None\<close>: nothing is assigned.
\<close>

fun first_part_text :: "part list option \<Rightarrow> string option" where
  "first_part_text None = None"
| "first_part_text (Some []) = None"
| "first_part_text (Some (p # ps)) = part_text p"

text \<open>Lines 308-316: the text taken from \<open>task_result.artifacts[0]\<close>, starting from \<open>""\<close>.\<close>

fun artifact_text :: "string \<Rightarrow> task_result \<Rightarrow> string" where
  "artifact_text result_text t =
     (case result_artifacts t of
        None \<Rightarrow> result_text
      | Some [] \<Rightarrow> result_text
      | Some (a # as) \<Rightarrow>
          (case first_part_text (artifact_parts a) of
             None \<Rightarrow> result_text
           | Some s \<Rightarrow> s))"

text \<open>Lines 318-323: the fallback, taken only when \<open>not result_text\<close>.\<close>

fun message_text :: "string \<Rightarrow> task_result \<Rightarrow> string" where
  "message_text result_text t =
     (if result_text = [] then
        (case result_message t of
           None \<Rightarrow> result_text
         | Some m \<Rightarrow>
             (case first_part_text (message_parts m) of
                None \<Rightarrow> result_text
              | Some s \<Rightarrow> s))
      else result_text)"

text \<open>
  Lines 294-330. \<open>response.root.result\<close> on a root without \<open>result\<close> and
  \<open>task_result.id\<close> on a result without \<open>id\<close> raise \<open>AttributeError\<close>; an empty
  \<open>result_text\<close> raises \<open>ValueError\<close>.
\<close>

definition extract_result :: "response \<Rightarrow> py_exn + string" where
  "extract_result response =
     (case response of
        Response None \<Rightarrow> Inl (ValueError ''No text content in response artifacts or message'')
      | Response (Some (Root Absent)) \<Rightarrow> Inl (AttributeError ''result'')
      | Response (Some (Root (Present None))) \<Rightarrow>
          Inl (ValueError ''No text content in response artifacts or message'')
      | Response (Some (Root (Present (Some task_result)))) \<Rightarrow>
          (case result_id task_result of
             Absent \<Rightarrow> Inl (AttributeError ''id'')
           | Present i \<Rightarrow>
               (let result_text = message_text (artifact_text [] task_result) task_result
                in if result_text = []
                   then Inl (ValueError ''No text content in response artifacts or message'')
                   else Inr result_text)))"

subsection \<open>The message that \<open>run\<close> builds\<close>

text \<open>
  \<open>uuid4()\<close> yields a 128-bit value; \<open>.hex\<close> and \<open>str\<close> are its two renderings, both
  one-to-one, kept here as the constructors \<open>Hex\<close> and \<open>Str\<close> over the value.
\<close>

datatype uuid_text = Hex nat | Str nat

record payload_part =
  kind :: string
  text_value :: string

text \<open>
  The dictionary under \<open>'message'\<close>. The keys \<open>task_id\<close> and \<open>context_id\<close> are added
  after construction, so each is \<open>None\<close> when the key is not in the dictionary.
\<close>

record message_payload =
  role :: string
  parts :: "payload_part list"
  message_id :: uuid_text
  task_id :: "string option"
  context_id :: "string option"

record send_message_request =
  request_id :: uuid_text
  params :: message_payload

text \<open>Python truth of an \<open>Optional[str]\<close>: \<open>None\<close> and \<open>""\<close> are false.\<close>

fun truthy :: "string option \<Rightarrow> bool" where
  "truthy None = False"
| "truthy (Some s) = (s \<noteq> [])"

text \<open>Lines 232-249.\<close>

definition build_message_payload ::
  "string \<Rightarrow> uuid_text \<Rightarrow> string option \<Rightarrow> string option \<Rightarrow> message_payload" where
  "build_message_payload input_text mid tid cid =
     \<lparr> role = ''user'',
       parts = [\<lparr> kind = ''text'', text_value = input_text \<rparr>],
       message_id = mid,
       task_id = (if truthy tid then tid else None),
       context_id = (if truthy cid then cid else None) \<rparr>"

subsection \<open>The network, the UUID generator and \<open>run\<close> itself\<close>

record agent_card =
  card_name :: string
  card_version :: string
  card_skills :: "string list"

text \<open>
  What \<open>run\<close> does to the outside world, in program order: one entry per awaited
  network call, with the base URL it goes to.
\<close>

datatype net_op =
    GetAgentCard string
  | SendMessage string send_message_request

record world =
  uuid_count :: nat
  net_log :: "net_op list"

text \<open>
  The collaborators of \<open>run\<close>: the card resolver and the A2A client (each answers from
  the calls made so far, the timeout of the HTTP client and its arguments) and the
  sequence of values that \<open>uuid4()\<close> yields in this process.
\<close>

record env =
  get_agent_card :: "net_op list \<Rightarrow> rat \<Rightarrow> string \<Rightarrow> py_exn + agent_card"
  send_message ::
    "net_op list \<Rightarrow> rat \<Rightarrow> agent_card \<Rightarrow> send_message_request \<Rightarrow> py_exn + response"
  uuid4 :: "nat \<Rightarrow> nat"

text \<open>
  The three messages of lines 333, 338 and 343, each with the value it formats:
  \<open>"Request timeout after {timeout}s"\<close>, \<open>"Network error: {str(e)}"\<close> and
  \<open>"A2A communication error: {str(e)}"\<close>. \<open>Exception msg cause\<close> is
  \<open>raise Exception(msg) from cause\<close>.
\<close>

datatype error_msg =
    RequestTimeoutAfter rat
  | NetworkError string
  | A2ACommunicationError string

datatype run_exception = Exception error_msg py_exn

text \<open>Lines 332-345: the handlers, in the order of the source.\<close>

fun handlers :: "rat \<Rightarrow> py_exn \<Rightarrow> run_exception" where
  "handlers timeout (TimeoutException m) =
     Exception (RequestTimeoutAfter timeout) (TimeoutException m)"
| "handlers timeout (HTTPError m) = Exception (NetworkError m) (HTTPError m)"
| "handlers timeout e = Exception (A2ACommunicationError (str_exn e)) e"

definition default_timeout :: rat where
  "default_timeout = 120"

text \<open>
  Lines 227-262: the request, built from the next two values of \<open>uuid4()\<close>, the first
  for \<open>message_id = uuid4().hex\<close>, the second for the request \<open>id=str(uuid4())\<close>.
\<close>

definition build_request ::
  "env \<Rightarrow> string \<Rightarrow> string option \<Rightarrow> string option \<Rightarrow> nat \<Rightarrow> send_message_request" where
  "build_request e input_text tid cid n =
     (let mid = Hex (uuid4 e n);
          message_payload = build_message_payload input_text mid tid cid
      in \<lparr> request_id = Str (uuid4 e (n + 1)), params = message_payload \<rparr>)"

text \<open>
  \<open>run\<close>, lines 189-345: discovery, the request, one \<open>send_message\<close>, the extraction;
  any exception on the way goes through the handlers.
\<close>

definition run ::
  "env \<Rightarrow> string \<Rightarrow> string \<Rightarrow> rat \<Rightarrow> string option \<Rightarrow> string option \<Rightarrow> world
     \<Rightarrow> (run_exception + string) \<times> world" where
  "run e base_url input_text timeout tid cid w =
     (let w1 = w\<lparr> net_log := net_log w @ [GetAgentCard base_url] \<rparr>
      in case get_agent_card e (net_log w) timeout base_url of
           Inl ex \<Rightarrow> (Inl (handlers timeout ex), w1)
         | Inr acard \<Rightarrow>
             (let request = build_request e input_text tid cid (uuid_count w1);
                  w2 = w1\<lparr> uuid_count := uuid_count w1 + 2,
                            net_log := net_log w1 @ [SendMessage base_url request] \<rparr>
              in case send_message e (net_log w1) timeout acard request of
                   Inl ex \<Rightarrow> (Inl (handlers timeout ex), w2)
                 | Inr response \<Rightarrow>
                     (case extract_result response of
                        Inl ex \<Rightarrow> (Inl (handlers timeout ex), w2)
                      | Inr result_text \<Rightarrow> (Inr result_text, w2))))"

subsection \<open>client/client\_agent.py: run\_workflow\<close>

text \<open>
  Lines 113-174. Each stage is one call of \<open>run\<close> with the default timeout and no
  task or context identifier; each \<open>except Exception\<close> logs and re-raises.
\<close>

definition run_workflow ::
  "env \<Rightarrow> string \<Rightarrow> string \<Rightarrow> string \<Rightarrow> world \<Rightarrow> (run_exception + string) \<times> world" where
  "run_workflow e topic crewai_url langgraph_url w =
     (case run e crewai_url topic default_timeout None None w of
        (Inl ex, w1) \<Rightarrow> (Inl ex, w1)
      | (Inr questions, w1) \<Rightarrow>
          (case run e langgraph_url questions default_timeout None None w1 of
             (Inl ex, w2) \<Rightarrow> (Inl ex, w2)
           | (Inr latex_code, w2) \<Rightarrow> (Inr latex_code, w2)))"

text \<open>The requests sent, read from the network log.\<close>

fun sent_requests :: "net_op list \<Rightarrow> send_message_request list" where
  "sent_requests [] = []"
| "sent_requests (GetAgentCard u # ops) = sent_requests ops"
| "sent_requests (SendMessage u r # ops) = r # sent_requests ops"

section \<open>Python string operations used by the servers\<close>

text \<open>
  A \<open>char\<close> stands for a code point below 256. \<open>str.isspace\<close> holds there for the
  code points 9-13, 28-32, 133 and 160; \<open>str.strip()\<close> removes them at both ends.
\<close>

definition isspace :: "char \<Rightarrow> bool" where
  "isspace c = (of_char c \<in> set [9, 10, 11, 12, 13, 28, 29, 30, 31, 32, 133, 160 :: nat])"

definition strip :: "string \<Rightarrow> string" where
  "strip s = rev (dropWhile isspace (rev (dropWhile isspace s)))"

definition backslash :: char where
  "backslash = CHR 0x5C"

definition newline :: char where
  "newline = CHR 0x0A"

definition double_quote :: char where
  "double_quote = CHR 0x22"

definition starts_with :: "string \<Rightarrow> string \<Rightarrow> bool" where
  "starts_with pre s = (take (length pre) s = pre)"


text \<open>\<open>sub in s\<close>.\<close>

fun contains :: "string \<Rightarrow> string \<Rightarrow> bool" where
  "contains sub [] = (sub = [])"
| "contains sub (c # cs) = (starts_with sub (c # cs) \<or> contains sub cs)"

text \<open>
  \<open>s.split(sep)\<close> for a non-empty separator: the pieces between the occurrences of
  \<open>sep\<close>, found from the left without overlap. \<open>acc\<close> holds the piece being read,
  reversed.
\<close>

fun split_from :: "string \<Rightarrow> string \<Rightarrow> string \<Rightarrow> string list" where
  "split_from sep acc [] = [rev acc]"
| "split_from sep acc (c # cs) =
     (if sep \<noteq> [] \<and> starts_with sep (c # cs)
      then rev acc # split_from sep [] (drop (length sep - 1) cs)
      else split_from sep (c # acc) cs)"

definition split :: "string \<Rightarrow> string \<Rightarrow> string list" where
  "split sep s = split_from sep [] s"

text \<open>\<open>sep.join(xs)\<close>.\<close>

fun join :: "string \<Rightarrow> string list \<Rightarrow> string" where
  "join sep [] = []"
| "join sep [x] = x"
| "join sep (x # y # ys) = x @ sep @ join sep (y # ys)"

text \<open>\<open>xs[i]\<close> for \<open>i \<ge> 0\<close>.\<close>

fun index :: "'a list \<Rightarrow> nat \<Rightarrow> py_exn + 'a" where
  "index [] i = Inl (IndexError ''list index out of range'')"
| "index (x # xs) 0 = Inr x"
| "index (x # xs) (Suc i) = index xs i"

text \<open>The decimal text of a non-negative \<open>int\<close>, as an f-string prints it.\<close>

fun str_nat :: "nat \<Rightarrow> string" where
  "str_nat n =
     (if n < 10 then [''0123456789'' ! n]
      else str_nat (n div 10) @ [''0123456789'' ! (n mod 10)])"

section \<open>The agent executors\<close>

subsection \<open>Requests, tasks and what an executor publishes\<close>

datatype task_state = submitted | working | completed | failed | canceled

record task =
  ident :: string
  task_context_id :: string
  state :: task_state

record incoming_message =
  in_message_id :: string
  in_task_id :: "string option"
  in_context_id :: "string option"
  in_parts :: "part list"

text \<open>
  \<open>RequestContext\<close>: the outcome of \<open>get_user_input()\<close> (the text of the message
  parts, or the exception it raises), the message, and \<open>current_task\<close>.
\<close>

record request_context =
  get_user_input :: "py_exn + string"
  message :: incoming_message
  current_task :: "task option"

text \<open>\<open>new_agent_text_message(text, context_id, task_id)\<close>, by its arguments.\<close>

record agent_text_message =
  msg_text :: string
  msg_context_id :: string
  msg_task_id :: string

text \<open>
  The effects of \<open>execute\<close>, in program order. \<open>EnqueueEvent\<close>, \<open>UpdateStatus\<close>,
  \<open>AddArtifact\<close> and \<open>Complete\<close> are the publications on the event queue
  (\<open>event_queue.enqueue_event(task)\<close> and the three \<open>TaskUpdater\<close> calls, each with
  the task and context identifier the updater was built with); \<open>Generate\<close> marks the
  call of the generation backend with its argument.
\<close>

datatype effect =
    EnqueueEvent task
  | UpdateStatus string string task_state agent_text_message
  | Generate string
  | AddArtifact string string "part list" string
  | Complete string string

datatype a2a_error = InvalidParamsError | InternalError | UnsupportedOperationError

text \<open>\<open>ServerError(error=err)\<close>, with the exception it was raised from, if any.\<close>

datatype server_error = ServerError a2a_error "py_exn option"

text \<open>
  \<open>_validate_request\<close>, the same in both executors: \<open>True\<close> means invalid. An
  exception of \<open>get_user_input()\<close> is caught and also means invalid.
\<close>

definition validate_request :: "request_context \<Rightarrow> bool" where
  "validate_request ctx =
     (case get_user_input ctx of
        Inl ex \<Rightarrow> True
      | Inr user_input \<Rightarrow> user_input = [] \<or> strip user_input = [])"

text \<open>
  Step 3 of both executors: the current task, or a new one that is enqueued at once.
  \<open>new_task\<close> belongs to the A2A SDK and is a parameter; it may raise.
\<close>

definition create_or_retrieve_task ::
  "(incoming_message \<Rightarrow> py_exn + task) \<Rightarrow> request_context \<Rightarrow> effect list
     \<Rightarrow> py_exn + task \<times> effect list" where
  "create_or_retrieve_task new_task ctx queue =
     (case current_task ctx of
        Some t \<Rightarrow> Inr (t, queue)
      | None \<Rightarrow>
          (case new_task (message ctx) of
             Inl ex \<Rightarrow> Inl ex
           | Inr t \<Rightarrow> Inr (t, queue @ [EnqueueEvent t])))"

definition progress :: "string \<Rightarrow> task \<Rightarrow> effect" where
  "progress txt t =
     UpdateStatus (ident t) (task_context_id t) working
       \<lparr> msg_text = txt, msg_context_id = task_context_id t, msg_task_id = ident t \<rparr>"

subsection \<open>crewai\_question\_agent/agent\_executor.py\<close>

text \<open>
  \<open>execute\<close>, lines 119-189. \<open>generate_questions\<close> is the CrewAI agent (the
  generation backend). A \<open>ServerError\<close> passes through; any other exception is
  re-raised as \<open>ServerError(error=InternalError())\<close> from it.
\<close>

definition crewai_execute ::
  "(string \<Rightarrow> py_exn + string) \<Rightarrow> (incoming_message \<Rightarrow> py_exn + task) \<Rightarrow> request_context
     \<Rightarrow> effect list \<Rightarrow> (server_error + unit) \<times> effect list" where
  "crewai_execute generate_questions new_task ctx queue =
     (if validate_request ctx then (Inl (ServerError InvalidParamsError None), queue)
      else case get_user_input ctx of
        Inl ex \<Rightarrow> (Inl (ServerError InternalError (Some ex)), queue)
      | Inr query \<Rightarrow>
          (case create_or_retrieve_task new_task ctx queue of
             Inl ex \<Rightarrow> (Inl (ServerError InternalError (Some ex)), queue)
           | Inr (t, q1) \<Rightarrow>
               (let q2 = q1 @ [progress ''Generating educational questions...'' t];
                    q3 = q2 @ [Generate query]
                in case generate_questions query of
                     Inl ex \<Rightarrow> (Inl (ServerError InternalError (Some ex)), q3)
                   | Inr questions \<Rightarrow>
                       (let q4 = q3 @ [AddArtifact (ident t) (task_context_id t)
                                         [Part (TextPart questions)] ''generated_questions''];
                            q5 = q4 @ [Complete (ident t) (task_context_id t)]
                        in (Inr (), q5)))))"

text \<open>\<open>cancel\<close>, lines 215-236: logs the task identifier or \<open>'unknown'\<close>, then raises.\<close>

definition crewai_cancel ::
  "request_context \<Rightarrow> effect list \<Rightarrow> (server_error + unit) \<times> effect list" where
  "crewai_cancel ctx queue =
     (let logged = (case current_task ctx of Some t \<Rightarrow> ident t | None \<Rightarrow> ''unknown'')
      in (Inl (ServerError UnsupportedOperationError None), queue))"

section \<open>langgraph\_latex\_agent/agent.py: LatexConverterAgent\<close>

text \<open>
  The \<open>metadata\<close> dictionary: a key that is not there is \<open>None\<close>, and reading it
  raises \<open>KeyError\<close>.
\<close>

record metadata =
  md_parsed_questions :: "string list option"
  md_count :: "nat option"

record latex_converter_state =
  questions :: string
  latex_code :: string
  metadata :: metadata

text \<open>
  Node 1, lines 143-159. Each node returns the keys it updates; the graph writes them
  into the state, which is what the functions below return.
\<close>

definition parse_questions :: "latex_converter_state \<Rightarrow> latex_converter_state" where
  "parse_questions st =
     (let lines = split [newline] (strip (questions st));
          parsed = map strip (filter (\<lambda>line. strip line \<noteq> []) lines);
          c = length parsed
      in st\<lparr> metadata := \<lparr> md_parsed_questions = Some parsed, md_count = Some c \<rparr> \<rparr>)"

text \<open>The prompt of lines 197-214, as its lines.\<close>

definition prompt :: "string list \<Rightarrow> string" where
  "prompt parsed = join [newline]
     [''Convert the following questions into a professional LaTeX document.'',
      [],
      ''Questions:'',
      join [newline] parsed,
      [],
      ''Requirements:'',
      ''1. Use '' @ [backslash] @ ''documentclass{article}'',
      ''2. Include necessary packages:'',
      ''   - '' @ [backslash] @ ''usepackage{enumerate} for numbered lists'',
      ''   - '' @ [backslash] @ ''usepackage{amsmath} for any math formatting'',
      ''   - '' @ [backslash] @ ''usepackage[margin=1in]{geometry} for margins'',
      ''3. Use '' @ [backslash] @ ''begin{enumerate} environment for the questions'',
      ''4. Each question should be a '' @ [backslash] @ ''item'',
      ''5. Make the document compile-ready (complete with '' @ [backslash]
        @ ''begin{document} and '' @ [backslash] @ ''end{document})'',
      ''6. Add a title like '' @ [double_quote] @ ''Educational Questions'' @ [double_quote],
      ''7. Use proper LaTeX formatting and escaping'',
      [],
      ''Return ONLY the LaTeX code, no explanations or markdown code blocks.'']"

text \<open>Lines 220-227: the text between the code fences, if the answer has any.\<close>

definition clean_markdown :: "string \<Rightarrow> py_exn + string" where
  "clean_markdown code =
     (if contains ''```latex'' code then
        (case index (split ''```latex'' code) 1 of
           Inl ex \<Rightarrow> Inl ex
         | Inr rest \<Rightarrow>
             (case index (split ''```'' rest) 0 of
                Inl ex \<Rightarrow> Inl ex
              | Inr body \<Rightarrow> Inr (strip body)))
      else if contains ''```'' code then
        (case index (split ''```'' code) 1 of
           Inl ex \<Rightarrow> Inl ex
         | Inr rest \<Rightarrow>
             (case index (split ''```'' rest) 0 of
                Inl ex \<Rightarrow> Inl ex
              | Inr body \<Rightarrow> Inr (strip body)))
      else Inr code)"

text \<open>
  Node 2, lines 191-233. \<open>generate_content\<close> is the Gemini call together with the
  read of \<open>response.text\<close>.
\<close>

definition convert_to_latex_node ::
  "(string \<Rightarrow> py_exn + string) \<Rightarrow> latex_converter_state \<Rightarrow> py_exn + latex_converter_state" where
  "convert_to_latex_node generate_content st =
     (case md_parsed_questions (metadata st) of
        None \<Rightarrow> Inl (KeyError ''parsed_questions'')
      | Some parsed \<Rightarrow>
          (case md_count (metadata st) of
             None \<Rightarrow> Inl (KeyError ''count'')
           | Some c \<Rightarrow>
               (case generate_content (prompt parsed) of
                  Inl ex \<Rightarrow> Inl ex
                | Inr response_text \<Rightarrow>
                    (case clean_markdown response_text of
                       Inl ex \<Rightarrow> Inl ex
                     | Inr code \<Rightarrow> Inr (st\<lparr> latex_code := code \<rparr>)))))"

text \<open>The comment lines of 272-276, up to and including the empty line.\<close>

definition header :: "nat \<Rightarrow> string \<Rightarrow> string" where
  "header c now =
     ''% Generated by LangGraph A2A Agent'' @ [newline]
     @ ''% Questions Count: '' @ str_nat c @ [newline]
     @ ''% Generator: Gemini 2.0 Flash'' @ [newline]
     @ ''% Timestamp: '' @ now @ [newline]
     @ [newline]"

text \<open>Node 3, lines 266-282. \<open>now\<close> is what \<open>import_datetime_now()\<close> returns.\<close>

definition format_output :: "string \<Rightarrow> latex_converter_state \<Rightarrow> py_exn + latex_converter_state" where
  "format_output now st =
     (case md_count (metadata st) of
        None \<Rightarrow> Inl (KeyError ''count'')
      | Some c \<Rightarrow> Inr (st\<lparr> latex_code := header c now @ latex_code st \<rparr>))"

text \<open>
  \<open>LatexConverterAgent.convert_to_latex\<close>, lines 334-355: the compiled graph runs
  \<open>parse_questions\<close>, \<open>convert_to_latex\<close> and \<open>format_output\<close> in this order.
\<close>

definition convert_to_latex ::
  "(string \<Rightarrow> py_exn + string) \<Rightarrow> string \<Rightarrow> string \<Rightarrow> py_exn + string" where
  "convert_to_latex generate_content now qs =
     (let initial_state = \<lparr> questions = qs, latex_code = [],
                             metadata = \<lparr> md_parsed_questions = None, md_count = None \<rparr> \<rparr>
      in case convert_to_latex_node generate_content (parse_questions initial_state) of
           Inl ex \<Rightarrow> Inl ex
         | Inr st2 \<Rightarrow>
             (case format_output now st2 of
                Inl ex \<Rightarrow> Inl ex
              | Inr final_state \<Rightarrow> Inr (latex_code final_state)))"

subsection \<open>langgraph\_latex\_agent/agent\_executor.py\<close>

text \<open>\<open>execute\<close>, lines 143-218; the backend is the agent above.\<close>

definition langgraph_execute ::
  "(string \<Rightarrow> py_exn + string) \<Rightarrow> string \<Rightarrow> (incoming_message \<Rightarrow> py_exn + task)
     \<Rightarrow> request_context \<Rightarrow> effect list \<Rightarrow> (server_error + unit) \<times> effect list" where
  "langgraph_execute generate_content now new_task ctx queue =
     (if validate_request ctx then (Inl (ServerError InvalidParamsError None), queue)
      else case get_user_input ctx of
        Inl ex \<Rightarrow> (Inl (ServerError InternalError (Some ex)), queue)
      | Inr questions_text \<Rightarrow>
          (case create_or_retrieve_task new_task ctx queue of
             Inl ex \<Rightarrow> (Inl (ServerError InternalError (Some ex)), queue)
           | Inr (t, q1) \<Rightarrow>
               (let q2 = q1 @ [progress ''Parsing questions...'' t];
                    q3 = q2 @ [progress ''Converting to LaTeX format...'' t];
                    q4 = q3 @ [Generate questions_text]
                in case convert_to_latex generate_content now questions_text of
                     Inl ex \<Rightarrow> (Inl (ServerError InternalError (Some ex)), q4)
                   | Inr code \<Rightarrow>
                       (let q5 = q4 @ [AddArtifact (ident t) (task_context_id t)
                                         [Part (TextPart code)] ''latex_document''];
                            q6 = q5 @ [Complete (ident t) (task_context_id t)]
                        in (Inr (), q6)))))"

text \<open>\<open>cancel\<close>, lines 244-261.\<close>

definition langgraph_cancel ::
  "request_context \<Rightarrow> effect list \<Rightarrow> (server_error + unit) \<times> effect list" where
  "langgraph_cancel ctx queue =
     (let logged = (case current_task ctx of Some t \<Rightarrow> ident t | None \<Rightarrow> ''unknown'')
      in (Inl (ServerError UnsupportedOperationError None), queue))"

section \<open>Readers of results and concrete inputs\<close>

text \<open>
  The text of the first part of the first artifact, and of the first part of the
  message, when the task result has one.
\<close>

definition first_artifact_text :: "task_result \<Rightarrow> string option" where
  "first_artifact_text t =
     (case result_artifacts t of
        None \<Rightarrow> None
      | Some [] \<Rightarrow> None
      | Some (a # as) \<Rightarrow> first_part_text (artifact_parts a))"

definition first_message_text :: "task_result \<Rightarrow> string option" where
  "first_message_text t =
     (case result_message t of
        None \<Rightarrow> None
      | Some m \<Rightarrow> first_part_text (message_parts m))"


text \<open>What leaves \<open>run\<close> when line 326 raises: the \<open>ValueError\<close>, re-raised at line 345.\<close>

definition no_text_content :: run_exception where
  "no_text_content =
     Exception (A2ACommunicationError ''No text content in response artifacts or message'')
       (ValueError ''No text content in response artifacts or message'')"

text \<open>The task states that a sequence of effects publishes, in order.\<close>

fun published_states :: "effect list \<Rightarrow> task_state list" where
  "published_states [] = []"
| "published_states (EnqueueEvent t # es) = state t # published_states es"
| "published_states (UpdateStatus i c s m # es) = s # published_states es"
| "published_states (Complete i c # es) = completed # published_states es"
| "published_states (Generate q # es) = published_states es"
| "published_states (AddArtifact i c ps n # es) = published_states es"

text \<open>The five questions of the test at the end of langgraph\_latex\_agent/agent.py.\<close>

definition five_questions :: string where
  "five_questions = join [newline]
     [''1. What is machine learning?'',
      ''2. How do neural networks learn?'',
      ''3. What is the difference between AI and ML?'',
      ''4. Explain gradient descent'',
      ''5. What are activation functions?'']"

text \<open>A backend answer that follows every requirement of the prompt.\<close>

definition latex_document :: string where
  "latex_document = join [newline]
     [[backslash] @ ''documentclass{article}'',
      [backslash] @ ''usepackage{enumerate}'',
      [backslash] @ ''begin{document}'',
      [backslash] @ ''begin{enumerate}'',
      [backslash] @ ''item What is machine learning?'',
      [backslash] @ ''item How do neural networks learn?'',
      [backslash] @ ''item What is the difference between AI and ML?'',
      [backslash] @ ''item Explain gradient descent'',
      [backslash] @ ''item What are activation functions?'',
      [backslash] @ ''end{enumerate}'',
      [backslash] @ ''end{document}'']"

text \<open>A backend that answers every prompt with \<open>a\<close>, and one that raises \<open>ex\<close>.\<close>

definition answering_backend :: "string \<Rightarrow> string \<Rightarrow> py_exn + string" where
  "answering_backend a q = Inr a"

definition failing_backend :: "py_exn \<Rightarrow> string \<Rightarrow> py_exn + string" where
  "failing_backend ex q = Inl ex"

definition example_now :: string where
  "example_now = ''2025-11-12 14:30:00''"

definition crewai_url :: string where
  "crewai_url = ''http://localhost:8001''"

definition langgraph_url :: string where
  "langgraph_url = ''http://localhost:8002''"

definition example_card :: "string \<Rightarrow> agent_card" where
  "example_card n = \<lparr> card_name = n, card_version = ''1.0.0'', card_skills = [] \<rparr>"

definition world0 :: world where
  "world0 = \<lparr> uuid_count = 0, net_log = [] \<rparr>"

definition world1 :: world where
  "world1 = \<lparr> uuid_count = 2, net_log = [] \<rparr>"

definition task_response :: "task_result \<Rightarrow> response" where
  "task_response t = Response (Some (Root (Present (Some t))))"

definition text_result :: "string \<Rightarrow> task_result" where
  "text_result s =
     \<lparr> result_id = Present ''task-1'',
       result_artifacts = Some [\<lparr> artifact_name = Some ''result'',
                                  artifact_parts = Some [Part (TextPart s)] \<rparr>],
       result_message = None \<rparr>"

text \<open>A task whose only artifact holds the empty text.\<close>

definition blank_artifact_result :: task_result where
  "blank_artifact_result =
     \<lparr> result_id = Present ''task-2'',
       result_artifacts = Some [\<lparr> artifact_name = Some ''generated_questions'',
                                  artifact_parts = Some [Part (TextPart [])] \<rparr>],
       result_message = None \<rparr>"

definition env_answering :: "response \<Rightarrow> env" where
  "env_answering r =
     \<lparr> get_agent_card = (\<lambda>log timeout u. Inr (example_card ''Agent'')),
       send_message = (\<lambda>log timeout c req. Inr r),
       uuid4 = (\<lambda>n. n) \<rparr>"

definition env_discovery_raising :: "py_exn \<Rightarrow> env" where
  "env_discovery_raising ex =
     \<lparr> get_agent_card = (\<lambda>log timeout u. Inl ex),
       send_message = (\<lambda>log timeout c req. Inr (task_response (text_result ''unreachable''))),
       uuid4 = (\<lambda>n. n) \<rparr>"

definition env_send_raising :: "py_exn \<Rightarrow> env" where
  "env_send_raising ex =
     \<lparr> get_agent_card = (\<lambda>log timeout u. Inr (example_card ''Agent'')),
       send_message = (\<lambda>log timeout c req. Inl ex),
       uuid4 = (\<lambda>n. n) \<rparr>"

text \<open>
  Two agents behind two addresses: the first answers with the five questions, the
  second with what the LaTeX agent makes of the text it is sent.
\<close>

definition pipeline_env :: env where
  "pipeline_env =
     \<lparr> get_agent_card = (\<lambda>log timeout u.
          if u = crewai_url then Inr (example_card ''Question Generator'')
          else Inr (example_card ''LaTeX Converter'')),
       send_message = (\<lambda>log timeout c req.
          if card_name c = ''Question Generator''
          then Inr (task_response (text_result five_questions))
          else (case convert_to_latex (answering_backend latex_document) example_now
                       (concat (map text_value (parts (params req)))) of
                  Inl ex \<Rightarrow> Inl ex
                | Inr code \<Rightarrow> Inr (task_response (text_result code)))),
       uuid4 = (\<lambda>n. n) \<rparr>"

definition example_message :: incoming_message where
  "example_message = \<lparr> in_message_id = ''m-1'', in_task_id = None, in_context_id = None,
                         in_parts = [Part (TextPart ''Machine Learning'')] \<rparr>"

definition example_context :: "string \<Rightarrow> request_context" where
  "example_context txt =
     \<lparr> get_user_input = Inr txt, message = example_message, current_task = None \<rparr>"

definition example_task :: task where
  "example_task = \<lparr> ident = ''task-1'', task_context_id = ''ctx-1'', state = submitted \<rparr>"

definition example_new_task :: "incoming_message \<Rightarrow> py_exn + task" where
  "example_new_task m = Inr example_task"

section \<open>Shared lemmas\<close>

lemma extract_result_task:
  "result_id t = Present i \<Longrightarrow>
   extract_result (Response (Some (Root (Present (Some t))))) =
     (case first_artifact_text t of
        Some (c # cs) \<Rightarrow> Inr (c # cs)
      | _ \<Rightarrow>
          (case first_message_text t of
             Some (c # cs) \<Rightarrow> Inr (c # cs)
           | _ \<Rightarrow> Inl (ValueError ''No text content in response artifacts or message'')))"
  by (simp add: extract_result_def first_artifact_text_def first_message_text_def
      split: option.splits list.splits)

lemma extract_result_nonempty: "extract_result r \<noteq> Inr []"
  by (simp add: extract_result_def Let_def
      split: response.splits option.splits response_root.splits attr.splits)

lemma run_answered:
  assumes "get_agent_card e (net_log w) timeout u = Inr acard"
    and "send_message e (net_log w @ [GetAgentCard u]) timeout acard
           (build_request e x tid cid (uuid_count w)) = Inr r"
  shows "run e u x timeout tid cid w =
     ((case extract_result r of Inl ex \<Rightarrow> Inl (handlers timeout ex) | Inr s \<Rightarrow> Inr s),
      w\<lparr> uuid_count := uuid_count w + 2,
         net_log := net_log w @ [GetAgentCard u,
                                 SendMessage u (build_request e x tid cid (uuid_count w))] \<rparr>)"
  using assms by (simp add: run_def Let_def split: sum.splits)

lemma run_discovery_raises:
  "get_agent_card e (net_log w) timeout u = Inl ex \<Longrightarrow>
   run e u x timeout tid cid w =
     (Inl (handlers timeout ex), w\<lparr> net_log := net_log w @ [GetAgentCard u] \<rparr>)"
  by (simp add: run_def)

lemma run_send_raises:
  "get_agent_card e (net_log w) timeout u = Inr acard \<Longrightarrow>
   send_message e (net_log w @ [GetAgentCard u]) timeout acard
     (build_request e x tid cid (uuid_count w)) = Inl ex \<Longrightarrow>
   run e u x timeout tid cid w =
     (Inl (handlers timeout ex),
      w\<lparr> uuid_count := uuid_count w + 2,
         net_log := net_log w @ [GetAgentCard u,
                                 SendMessage u (build_request e x tid cid (uuid_count w))] \<rparr>)"
  by (simp add: run_def Let_def)

lemma run_discovered:
  "get_agent_card e (net_log w) timeout u = Inr acard \<Longrightarrow>
   snd (run e u x timeout tid cid w) =
     w\<lparr> uuid_count := uuid_count w + 2,
        net_log := net_log w @ [GetAgentCard u,
                                SendMessage u (build_request e x tid cid (uuid_count w))] \<rparr>"
  by (simp add: run_def Let_def split: sum.splits)

lemma run_failed_log:
  "run e u x timeout tid cid w = (Inl ex, w') \<Longrightarrow>
   net_log w' = net_log w @ [GetAgentCard u]
   \<or> net_log w' = net_log w @ [GetAgentCard u,
                                SendMessage u (build_request e x tid cid (uuid_count w))]"
  by (auto simp add: run_def Let_def split: sum.splits)

lemma run_returned_log:
  "run e u x timeout tid cid w = (Inr s, w') \<Longrightarrow>
   net_log w' = net_log w @ [GetAgentCard u,
                             SendMessage u (build_request e x tid cid (uuid_count w))]
   \<and> uuid_count w' = uuid_count w + 2"
  by (auto simp add: run_def Let_def split: sum.splits)

lemma run_workflow_second_stage:
  "run e cu topic default_timeout None None w = (Inr qs, w1) \<Longrightarrow>
   run_workflow e topic cu lu w = run e lu qs default_timeout None None w1"
  by (cases "run e lu qs default_timeout None None w1")
     (simp add: run_workflow_def split: sum.splits)

lemma sent_requests_append: "sent_requests (xs @ ys) = sent_requests xs @ sent_requests ys"
  by (induction xs rule: sent_requests.induct) simp_all

lemma strip_blank:
  assumes "\<forall>c\<in>set s. isspace c"
  shows "strip s = []"
proof -
  have "dropWhile isspace s = []"
    using assms by simp
  then show ?thesis
    by (simp only: strip_def rev.simps dropWhile.simps)
qed

lemma validate_blank:
  "get_user_input ctx = Inr user_input \<Longrightarrow> \<forall>c\<in>set user_input. isspace c \<Longrightarrow>
   validate_request ctx"
  by (simp add: validate_request_def strip_blank)

lemma valid_input:
  "get_user_input ctx = Inr user_input \<Longrightarrow> strip user_input \<noteq> [] \<Longrightarrow>
   \<not> validate_request ctx"
  by (auto simp add: validate_request_def strip_def)

lemma resolve_task:
  "current_task ctx = Some t \<or> (current_task ctx = None \<and> new_task (message ctx) = Inr t) \<Longrightarrow>
   create_or_retrieve_task new_task ctx queue =
     Inr (t, queue @ (if current_task ctx = None then [EnqueueEvent t] else []))"
  by (auto simp add: create_or_retrieve_task_def)




lemma convert_to_latex_value:
  assumes "generate_content (prompt (map strip (filter (\<lambda>line. strip line \<noteq> [])
             (split [newline] (strip qs))))) = Inr response_text"
    and "clean_markdown response_text = Inr code"
  shows "convert_to_latex generate_content now qs =
     Inr (header (length (filter (\<lambda>line. strip line \<noteq> []) (split [newline] (strip qs)))) now
          @ code)"
  using assms
  by (simp add: convert_to_latex_def parse_questions_def convert_to_latex_node_def
      format_output_def Let_def)

lemma five_questions_count:
  "length (filter (\<lambda>line. strip line \<noteq> []) (split [newline] (strip five_questions))) = 5"
  by code_simp

lemma five_questions_valid: "strip five_questions \<noteq> []"
  by code_simp

lemma clean_latex_document: "clean_markdown latex_document = Inr latex_document"
  by code_simp

lemma convert_five_questions:
  "convert_to_latex (answering_backend latex_document) example_now five_questions =
     Inr (header 5 example_now @ latex_document)"
  using convert_to_latex_value [of "answering_backend latex_document" five_questions latex_document
      latex_document example_now]
  by (simp add: five_questions_count clean_latex_document answering_backend_def)

lemma run_pipeline_stage1:
  "run pipeline_env crewai_url ''Machine Learning'' default_timeout None None world0 =
     (Inr five_questions,
      \<lparr> uuid_count = 2,
        net_log = [GetAgentCard crewai_url,
                   SendMessage crewai_url
                     (build_request pipeline_env ''Machine Learning'' None None 0)] \<rparr>)"
proof -
  have "extract_result (task_response (text_result five_questions)) = Inr five_questions"
    by code_simp
  then show ?thesis
    using run_answered [of pipeline_env world0 default_timeout crewai_url
        "example_card ''Question Generator''" "''Machine Learning''" None None
        "task_response (text_result five_questions)"]
    by (simp add: pipeline_env_def world0_def example_card_def)
qed

lemma run_pipeline_stage2:
  "run pipeline_env langgraph_url five_questions default_timeout None None
     \<lparr> uuid_count = 2,
       net_log = [GetAgentCard crewai_url,
                  SendMessage crewai_url
                    (build_request pipeline_env ''Machine Learning'' None None 0)] \<rparr> =
     (Inr (header 5 example_now @ latex_document),
      \<lparr> uuid_count = 4,
        net_log = [GetAgentCard crewai_url,
                   SendMessage crewai_url
                     (build_request pipeline_env ''Machine Learning'' None None 0),
                   GetAgentCard langgraph_url,
                   SendMessage langgraph_url
                     (build_request pipeline_env five_questions None None 2)] \<rparr>)"
proof -
  let ?w = "\<lparr> uuid_count = 2,
       net_log = [GetAgentCard crewai_url,
                  SendMessage crewai_url
                    (build_request pipeline_env ''Machine Learning'' None None 0)] \<rparr>"
  let ?out = "header 5 example_now @ latex_document"
  have ne: "?out \<noteq> []"
    by (simp add: header_def)
  have ex: "extract_result (task_response (text_result ?out)) = Inr ?out"
    using ne
    by (cases ?out)
       (simp_all add: extract_result_def task_response_def text_result_def)
  have urls: "langgraph_url \<noteq> crewai_url"
    by (simp add: langgraph_url_def crewai_url_def)
  have card: "get_agent_card pipeline_env (net_log ?w) default_timeout langgraph_url =
      Inr (example_card ''LaTeX Converter'')"
    using urls by (simp add: pipeline_env_def)
  have send: "send_message pipeline_env (net_log ?w @ [GetAgentCard langgraph_url])
      default_timeout (example_card ''LaTeX Converter'')
      (build_request pipeline_env five_questions None None (uuid_count ?w)) =
      Inr (task_response (text_result ?out))"
    by (simp add: pipeline_env_def example_card_def build_request_def
        build_message_payload_def convert_five_questions)
  show ?thesis
    using run_answered [OF card send] ex by simp
qed

section \<open>The remote invocation client\<close>

text \<open>
  C1, as the code has it. When the response carries a task result, \<open>run\<close> returns the
  text of the first part of the first artifact if that part is a text part and its text
  is not empty; otherwise the text of the first part of the message if the result has
  the attribute \<open>message\<close> and that part is a text part with a non-empty text;
  otherwise it fails with the \<open>ValueError\<close> of line 326, re-raised by the last
  handler, and returns no empty string. For a task result without the attribute
  \<open>message\<close> the second step is skipped: the artifact's non-empty text, or the failure.
\<close>

theorem run_result_precedence:
  assumes "get_agent_card e (net_log w) timeout u = Inr acard"
    and "send_message e (net_log w @ [GetAgentCard u]) timeout acard
           (build_request e x tid cid (uuid_count w)) =
         Inr (Response (Some (Root (Present (Some t)))))"
    and "result_id t = Present i"
  shows "fst (run e u x timeout tid cid w) =
     (case first_artifact_text t of
        Some (c # cs) \<Rightarrow> Inr (c # cs)
      | _ \<Rightarrow>
          (case first_message_text t of
             Some (c # cs) \<Rightarrow> Inr (c # cs)
           | _ \<Rightarrow> Inl no_text_content))
     \<and> (result_message t = None \<longrightarrow>
          fst (run e u x timeout tid cid w) =
            (case first_artifact_text t of
               Some (c # cs) \<Rightarrow> Inr (c # cs)
             | _ \<Rightarrow> Inl no_text_content))"
proof -
  have p: "fst (run e u x timeout tid cid w) =
     (case first_artifact_text t of
        Some (c # cs) \<Rightarrow> Inr (c # cs)
      | _ \<Rightarrow>
          (case first_message_text t of
             Some (c # cs) \<Rightarrow> Inr (c # cs)
           | _ \<Rightarrow> Inl no_text_content))"
    using run_answered [OF assms(1) assms(2)] extract_result_task [OF assms(3)]
    by (simp add: no_text_content_def split: option.splits list.splits)
  have m: "result_message t = None \<longrightarrow> first_message_text t = None"
    by (simp add: first_message_text_def)
  show ?thesis
    using p m by (auto split: option.splits list.splits)
qed

theorem run_result_precedence_witness:
  "get_agent_card (env_answering (task_response (text_result ''1. What is AI?'')))
     (net_log world0) default_timeout crewai_url = Inr (example_card ''Agent'')
   \<and> send_message (env_answering (task_response (text_result ''1. What is AI?'')))
       (net_log world0 @ [GetAgentCard crewai_url]) default_timeout (example_card ''Agent'')
       (build_request (env_answering (task_response (text_result ''1. What is AI?'')))
          ''AI'' None None (uuid_count world0)) =
     Inr (Response (Some (Root (Present (Some (text_result ''1. What is AI?''))))))
   \<and> result_id (text_result ''1. What is AI?'') = Present ''task-1''
   \<and> result_message (text_result ''1. What is AI?'') = None
   \<and> fst (run (env_answering (task_response (text_result ''1. What is AI?''))) crewai_url
       ''AI'' default_timeout None None world0) = Inr ''1. What is AI?''"
proof -
  let ?e = "env_answering (task_response (text_result ''1. What is AI?''))"
  have a: "get_agent_card ?e (net_log world0) default_timeout crewai_url =
      Inr (example_card ''Agent'')"
    by (simp add: env_answering_def)
  have b: "send_message ?e (net_log world0 @ [GetAgentCard crewai_url]) default_timeout
      (example_card ''Agent'') (build_request ?e ''AI'' None None (uuid_count world0)) =
      Inr (Response (Some (Root (Present (Some (text_result ''1. What is AI?''))))))"
    by (simp add: env_answering_def task_response_def)
  have c: "result_id (text_result ''1. What is AI?'') = Present ''task-1''"
    by (simp add: text_result_def)
  have d: "result_message (text_result ''1. What is AI?'') = None"
    by (simp add: text_result_def)
  show ?thesis
    using a b c d run_result_precedence [OF a b c]
    by (simp add: first_artifact_text_def text_result_def)
qed

text \<open>
  C1 as written fails: a task result with a non-empty artifact list and no attribute
  \<open>message\<close>, whose first artifact's first part holds the empty text. \<open>run\<close> does not
  return the text of that part; it fails.
\<close>

theorem run_artifact_precedence_counterexample:
  "result_artifacts blank_artifact_result =
     Some [\<lparr> artifact_name = Some ''generated_questions'',
              artifact_parts = Some [Part (TextPart [])] \<rparr>]
   \<and> first_artifact_text blank_artifact_result = Some []
   \<and> result_message blank_artifact_result = None
   \<and> fst (run (env_answering (task_response blank_artifact_result)) crewai_url
       ''Machine Learning'' default_timeout None None world0) = Inl no_text_content
   \<and> fst (run (env_answering (task_response blank_artifact_result)) crewai_url
       ''Machine Learning'' default_timeout None None world0) \<noteq> Inr []"
  by (simp add: run_def env_answering_def task_response_def blank_artifact_result_def
      first_artifact_text_def extract_result_def build_request_def world0_def
      no_text_content_def)

text \<open>
  C10. \<open>run\<close> never returns the empty string. When the first part of the first
  artifact holds the empty text, the outcome is that of the fallback alone: the text of
  the first part of the message if it is not empty, the failure otherwise.
\<close>

theorem run_never_returns_empty:
  "fst (run e u x timeout tid cid w) \<noteq> Inr []
   \<and> (get_agent_card e (net_log w) timeout u = Inr acard
      \<and> send_message e (net_log w @ [GetAgentCard u]) timeout acard
          (build_request e x tid cid (uuid_count w)) =
        Inr (Response (Some (Root (Present (Some t)))))
      \<and> result_id t = Present i
      \<and> first_artifact_text t = Some [] \<longrightarrow>
      fst (run e u x timeout tid cid w) =
        (case first_message_text t of
           Some (c # cs) \<Rightarrow> Inr (c # cs)
         | _ \<Rightarrow> Inl no_text_content))"
proof
  show "fst (run e u x timeout tid cid w) \<noteq> Inr []"
    using extract_result_nonempty
    by (auto simp add: run_def Let_def split: sum.splits)
next
  show "get_agent_card e (net_log w) timeout u = Inr acard
      \<and> send_message e (net_log w @ [GetAgentCard u]) timeout acard
          (build_request e x tid cid (uuid_count w)) =
        Inr (Response (Some (Root (Present (Some t)))))
      \<and> result_id t = Present i
      \<and> first_artifact_text t = Some [] \<longrightarrow>
      fst (run e u x timeout tid cid w) =
        (case first_message_text t of
           Some (c # cs) \<Rightarrow> Inr (c # cs)
         | _ \<Rightarrow> Inl no_text_content)"
  proof
    assume h: "get_agent_card e (net_log w) timeout u = Inr acard
      \<and> send_message e (net_log w @ [GetAgentCard u]) timeout acard
          (build_request e x tid cid (uuid_count w)) =
        Inr (Response (Some (Root (Present (Some t)))))
      \<and> result_id t = Present i
      \<and> first_artifact_text t = Some []"
    then have r: "run e u x timeout tid cid w =
        ((case extract_result (Response (Some (Root (Present (Some t))))) of
            Inl ex \<Rightarrow> Inl (handlers timeout ex) | Inr s \<Rightarrow> Inr s),
         w\<lparr> uuid_count := uuid_count w + 2,
            net_log := net_log w @ [GetAgentCard u,
              SendMessage u (build_request e x tid cid (uuid_count w))] \<rparr>)"
      using run_answered by blast
    from h have "extract_result (Response (Some (Root (Present (Some t))))) =
        (case first_message_text t of
           Some (c # cs) \<Rightarrow> Inr (c # cs)
         | _ \<Rightarrow> Inl (ValueError ''No text content in response artifacts or message''))"
      using extract_result_task [of t i] by simp
    with r show "fst (run e u x timeout tid cid w) =
        (case first_message_text t of
           Some (c # cs) \<Rightarrow> Inr (c # cs)
         | _ \<Rightarrow> Inl no_text_content)"
      by (simp add: no_text_content_def split: option.splits list.splits)
  qed
qed

theorem run_never_returns_empty_witness:
  "get_agent_card (env_answering (task_response (text_result []))) (net_log world0)
     default_timeout crewai_url = Inr (example_card ''Agent'')
   \<and> send_message (env_answering (task_response (text_result [])))
       (net_log world0 @ [GetAgentCard crewai_url]) default_timeout (example_card ''Agent'')
       (build_request (env_answering (task_response (text_result []))) ''AI'' None None
          (uuid_count world0)) =
     Inr (Response (Some (Root (Present (Some (text_result []))))))
   \<and> result_id (text_result []) = Present ''task-1''
   \<and> first_artifact_text (text_result []) = Some []
   \<and> fst (run (env_answering (task_response (text_result []))) crewai_url ''AI''
       default_timeout None None world0) = Inl no_text_content
   \<and> fst (run (env_answering (task_response (text_result []))) crewai_url ''AI''
       default_timeout None None world0) \<noteq> Inr []"
proof -
  let ?e = "env_answering (task_response (text_result []))"
  have a: "get_agent_card ?e (net_log world0) default_timeout crewai_url =
      Inr (example_card ''Agent'')"
    by (simp add: env_answering_def)
  have b: "send_message ?e (net_log world0 @ [GetAgentCard crewai_url]) default_timeout
      (example_card ''Agent'') (build_request ?e ''AI'' None None (uuid_count world0)) =
      Inr (Response (Some (Root (Present (Some (text_result []))))))"
    by (simp add: env_answering_def task_response_def)
  have c: "result_id (text_result []) = Present ''task-1''"
    by (simp add: text_result_def)
  have d: "first_artifact_text (text_result []) = Some []"
    by (simp add: first_artifact_text_def text_result_def)
  have m: "first_message_text (text_result []) = None"
    by (simp add: first_message_text_def text_result_def)
  show ?thesis
    using a b c d m
      run_never_returns_empty [of ?e crewai_url "''AI''" default_timeout None None world0
        "example_card ''Agent''" "text_result []" "''task-1''"]
    by simp
qed

text \<open>
  C7: what \<open>run\<close> raises, by the class of the exception that the awaited call raises,
  for the message and for the discovery. An httpx timeout takes the handler of line
  332, whose message carries \<open>timeout\<close>; any other httpx error the handler of line 337.
  An error class of the SDK's client is neither: it takes the handler of line 342, and
  what leaves \<open>run\<close> carries the text of the cause but no timeout. In every case the
  network log holds the discovery once and the message at most once.
\<close>

theorem run_errors_by_exception_class:
  "(get_agent_card e (net_log w) timeout u = Inr acard
      \<and> send_message e (net_log w @ [GetAgentCard u]) timeout acard
          (build_request e x tid cid (uuid_count w)) = Inl (TimeoutException m) \<longrightarrow>
    run e u x timeout tid cid w =
      (Inl (Exception (RequestTimeoutAfter timeout) (TimeoutException m)),
       w\<lparr> uuid_count := uuid_count w + 2,
          net_log := net_log w @ [GetAgentCard u,
                                  SendMessage u (build_request e x tid cid (uuid_count w))] \<rparr>))
   \<and> (get_agent_card e (net_log w) timeout u = Inr acard
      \<and> send_message e (net_log w @ [GetAgentCard u]) timeout acard
          (build_request e x tid cid (uuid_count w)) = Inl (HTTPError m) \<longrightarrow>
    run e u x timeout tid cid w =
      (Inl (Exception (NetworkError m) (HTTPError m)),
       w\<lparr> uuid_count := uuid_count w + 2,
          net_log := net_log w @ [GetAgentCard u,
                                  SendMessage u (build_request e x tid cid (uuid_count w))] \<rparr>))
   \<and> (get_agent_card e (net_log w) timeout u = Inr acard
      \<and> send_message e (net_log w @ [GetAgentCard u]) timeout acard
          (build_request e x tid cid (uuid_count w)) = Inl (A2AClientError m) \<longrightarrow>
    run e u x timeout tid cid w =
      (Inl (Exception (A2ACommunicationError m) (A2AClientError m)),
       w\<lparr> uuid_count := uuid_count w + 2,
          net_log := net_log w @ [GetAgentCard u,
                                  SendMessage u (build_request e x tid cid (uuid_count w))] \<rparr>))
   \<and> (get_agent_card e (net_log w) timeout u = Inl (TimeoutException m) \<longrightarrow>
    run e u x timeout tid cid w =
      (Inl (Exception (RequestTimeoutAfter timeout) (TimeoutException m)),
       w\<lparr> net_log := net_log w @ [GetAgentCard u] \<rparr>))
   \<and> (get_agent_card e (net_log w) timeout u = Inl (HTTPError m) \<longrightarrow>
    run e u x timeout tid cid w =
      (Inl (Exception (NetworkError m) (HTTPError m)),
       w\<lparr> net_log := net_log w @ [GetAgentCard u] \<rparr>))
   \<and> (get_agent_card e (net_log w) timeout u = Inl (A2AClientError m) \<longrightarrow>
    run e u x timeout tid cid w =
      (Inl (Exception (A2ACommunicationError m) (A2AClientError m)),
       w\<lparr> net_log := net_log w @ [GetAgentCard u] \<rparr>))"
  using run_discovery_raises [of e w timeout u _ x tid cid]
    run_send_raises [of e w timeout u acard x tid cid]
  by simp

text \<open>
  The timeout of 0.001 seconds against a slow agent, and an agent that cannot be
  reached: the SDK's client raises its own error, and \<open>run\<close> raises the exception of
  line 345, which does not carry the timeout. The httpx exceptions, were they to
  arrive, would take the first two handlers.
\<close>

theorem run_errors_by_exception_class_witness:
  "run (env_send_raising (A2AClientError ''Client Request timed out'')) crewai_url
      ''Machine Learning'' (1 / 1000) None None world0 =
     (Inl (Exception (A2ACommunicationError ''Client Request timed out'')
            (A2AClientError ''Client Request timed out'')),
      \<lparr> uuid_count = 2,
        net_log = [GetAgentCard crewai_url,
                   SendMessage crewai_url
                     (build_request (env_send_raising (A2AClientError ''Client Request timed out''))
                        ''Machine Learning'' None None 0)] \<rparr>)
   \<and> run (env_discovery_raising (A2AClientError ''Network communication error'')) crewai_url
      ''Machine Learning'' default_timeout None None world0 =
     (Inl (Exception (A2ACommunicationError ''Network communication error'')
            (A2AClientError ''Network communication error'')),
      \<lparr> uuid_count = 0, net_log = [GetAgentCard crewai_url] \<rparr>)
   \<and> fst (run (env_send_raising (TimeoutException ''read timed out'')) crewai_url
      ''Machine Learning'' (1 / 1000) None None world0) =
     Inl (Exception (RequestTimeoutAfter (1 / 1000)) (TimeoutException ''read timed out''))
   \<and> fst (run (env_send_raising (HTTPError ''connection reset'')) crewai_url
      ''Machine Learning'' default_timeout None None world0) =
     Inl (Exception (NetworkError ''connection reset'') (HTTPError ''connection reset''))
   \<and> fst (run (env_discovery_raising (TimeoutException ''connect timed out'')) crewai_url
      ''Machine Learning'' default_timeout None None world0) =
     Inl (Exception (RequestTimeoutAfter default_timeout)
           (TimeoutException ''connect timed out''))
   \<and> fst (run (env_discovery_raising (HTTPError ''connection refused'')) crewai_url
      ''Machine Learning'' default_timeout None None world0) =
     Inl (Exception (NetworkError ''connection refused'') (HTTPError ''connection refused''))"
  using
    run_errors_by_exception_class [of
      "env_send_raising (A2AClientError ''Client Request timed out'')"
      world0 "1 / 1000" crewai_url "example_card ''Agent''" "''Machine Learning''" None None
      "''Client Request timed out''"]
    run_errors_by_exception_class [of
      "env_discovery_raising (A2AClientError ''Network communication error'')"
      world0 default_timeout crewai_url "example_card ''Agent''" "''Machine Learning''" None None
      "''Network communication error''"]
    run_errors_by_exception_class [of "env_send_raising (TimeoutException ''read timed out'')"
      world0 "1 / 1000" crewai_url "example_card ''Agent''" "''Machine Learning''" None None
      "''read timed out''"]
    run_errors_by_exception_class [of "env_send_raising (HTTPError ''connection reset'')"
      world0 default_timeout crewai_url "example_card ''Agent''" "''Machine Learning''" None None
      "''connection reset''"]
    run_errors_by_exception_class [of
      "env_discovery_raising (TimeoutException ''connect timed out'')"
      world0 default_timeout crewai_url "example_card ''Agent''" "''Machine Learning''" None None
      "''connect timed out''"]
    run_errors_by_exception_class [of
      "env_discovery_raising (HTTPError ''connection refused'')"
      world0 default_timeout crewai_url "example_card ''Agent''" "''Machine Learning''" None None
      "''connection refused''"]
  by (simp add: env_send_raising_def env_discovery_raising_def world0_def)

text \<open>
  C8, as the code has it. Once the agent card is there, \<open>run\<close> sends one request. Its
  message has the role \<open>user\<close> and one text part holding \<open>input_text\<close> unchanged; its
  \<open>message_id\<close> is the hex form of the next value of \<open>uuid4()\<close>, which differs from
  every value drawn before if the generator never repeats, and two values are used up;
  the key \<open>task_id\<close> is there, with the value given, exactly when a non-empty
  \<open>task_id\<close> was given, and likewise \<open>context_id\<close>.
\<close>

theorem run_message_construction:
  assumes "get_agent_card e (net_log w) timeout u = Inr acard"
  shows "\<exists>req. sent_requests (net_log (snd (run e u x timeout tid cid w))) =
                 sent_requests (net_log w) @ [req]
     \<and> role (params req) = ''user''
     \<and> parts (params req) = [\<lparr> kind = ''text'', text_value = x \<rparr>]
     \<and> message_id (params req) = Hex (uuid4 e (uuid_count w))
     \<and> uuid_count (snd (run e u x timeout tid cid w)) = uuid_count w + 2
     \<and> (inj (uuid4 e) \<longrightarrow> (\<forall>n<uuid_count w. message_id (params req) \<noteq> Hex (uuid4 e n)))
     \<and> task_id (params req) = (if tid = Some [] then None else tid)
     \<and> context_id (params req) = (if cid = Some [] then None else cid)"
proof -
  let ?req = "build_request e x tid cid (uuid_count w)"
  have fresh: "inj (uuid4 e) \<longrightarrow> (\<forall>n<uuid_count w. uuid4 e (uuid_count w) \<noteq> uuid4 e n)"
    by (auto dest: injD)
  have tid: "(if truthy tid then tid else None) = (if tid = Some [] then None else tid)"
    by (cases tid) auto
  have cid: "(if truthy cid then cid else None) = (if cid = Some [] then None else cid)"
    by (cases cid) auto
  show ?thesis
    apply (rule exI [of _ ?req])
    using fresh tid cid
    by (simp add: run_discovered [OF assms] sent_requests_append build_request_def
        build_message_payload_def)
qed

theorem run_message_construction_witness:
  "get_agent_card (env_answering (task_response (text_result ''1. Q''))) (net_log world1)
     default_timeout crewai_url = Inr (example_card ''Agent'')
   \<and> inj (uuid4 (env_answering (task_response (text_result ''1. Q''))))
   \<and> (\<exists>req. sent_requests (net_log (snd (run (env_answering (task_response
          (text_result ''1. Q''))) crewai_url ''Machine Learning'' default_timeout
          (Some ''task-7'') None world1))) = [req]
        \<and> role (params req) = ''user''
        \<and> parts (params req) = [\<lparr> kind = ''text'', text_value = ''Machine Learning'' \<rparr>]
        \<and> message_id (params req) = Hex 2
        \<and> message_id (params req) \<noteq> Hex 0 \<and> message_id (params req) \<noteq> Hex 1
        \<and> task_id (params req) = Some ''task-7''
        \<and> context_id (params req) = None)"
proof -
  let ?e = "env_answering (task_response (text_result ''1. Q''))"
  have a: "get_agent_card ?e (net_log world1) default_timeout crewai_url =
      Inr (example_card ''Agent'')"
    by (simp add: env_answering_def)
  have b: "inj (uuid4 ?e)"
    by (simp add: env_answering_def)
  show ?thesis
    using a b run_message_construction [OF a, of "''Machine Learning''" "Some ''task-7''" None]
    by (auto simp add: world1_def env_answering_def)
qed

text \<open>
  C8 as written fails for a \<open>task_id\<close> that is given and empty: the message
  sent has no \<open>task_id\<close>.
\<close>

theorem run_empty_task_id_counterexample:
  "sent_requests (net_log (snd (run (env_answering (task_response (text_result ''1. Q'')))
      crewai_url ''Machine Learning'' default_timeout (Some []) None world0))) =
     [build_request (env_answering (task_response (text_result ''1. Q'')))
        ''Machine Learning'' (Some []) None 0]
   \<and> task_id (params (build_request (env_answering (task_response (text_result ''1. Q'')))
        ''Machine Learning'' (Some []) None 0)) = None"
  by (simp add: run_def env_answering_def world0_def build_request_def
      build_message_payload_def task_response_def text_result_def extract_result_def)

section \<open>The orchestrator\<close>

text \<open>
  C5. \<open>run_workflow\<close> runs stage 1 on the topic. If stage 1 fails, its error is the
  outcome and the network has seen the operations of stage 1 only, all of them to the
  first address and at most one message: stage 2 is not called. If stage 1 returns,
  the outcome, result or error, is that of stage 2 run on the whole output of stage 1,
  and the network has seen stage 1 once, then stage 2 once: nothing is tried again.
\<close>

theorem run_workflow_sequential:
  assumes "run e cu topic default_timeout None None w = (r1, w1)"
  shows "case r1 of
       Inl ex \<Rightarrow>
         run_workflow e topic cu lu w = (Inl ex, w1)
         \<and> (net_log w1 = net_log w @ [GetAgentCard cu]
            \<or> net_log w1 = net_log w @ [GetAgentCard cu,
                 SendMessage cu (build_request e topic None None (uuid_count w))])
     | Inr qs \<Rightarrow>
         run_workflow e topic cu lu w = run e lu qs default_timeout None None w1
         \<and> (let stage1 = [GetAgentCard cu,
                 SendMessage cu (build_request e topic None None (uuid_count w))];
                 stage2 = SendMessage lu (build_request e qs None None (uuid_count w + 2));
                 final_log = net_log (snd (run_workflow e topic cu lu w))
             in final_log = net_log w @ stage1 @ [GetAgentCard lu]
                \<or> final_log = net_log w @ stage1 @ [GetAgentCard lu, stage2])"
proof (cases r1)
  case (Inl ex)
  then show ?thesis
    using assms run_failed_log [of e cu topic default_timeout None None w ex w1]
    by (simp add: run_workflow_def)
next
  case (Inr qs)
  obtain r2 w2 where r2: "run e lu qs default_timeout None None w1 = (r2, w2)"
    by (cases "run e lu qs default_timeout None None w1")
  have wf: "run_workflow e topic cu lu w = (r2, w2)"
    using assms Inr r2 run_workflow_second_stage [of e cu topic w qs w1 lu] by simp
  have l1: "net_log w1 = net_log w @ [GetAgentCard cu,
      SendMessage cu (build_request e topic None None (uuid_count w))]
      \<and> uuid_count w1 = uuid_count w + 2"
    using assms Inr run_returned_log by simp
  have l2: "net_log w2 = net_log w1 @ [GetAgentCard lu]
      \<or> net_log w2 = net_log w1 @ [GetAgentCard lu,
           SendMessage lu (build_request e qs None None (uuid_count w1))]"
  proof (cases r2)
    case (Inl ex)
    then show ?thesis using r2 run_failed_log by simp
  next
    case (Inr s)
    then show ?thesis using r2 run_returned_log by simp
  qed
  show ?thesis
    using Inr wf r2 l1 l2 by (auto simp add: Let_def)
qed

theorem run_workflow_sequential_witness:
  "run (env_discovery_raising (HTTPError ''connection refused'')) crewai_url
      ''Machine Learning'' default_timeout None None world0 =
     (Inl (Exception (NetworkError ''connection refused'') (HTTPError ''connection refused'')),
      \<lparr> uuid_count = 0, net_log = [GetAgentCard crewai_url] \<rparr>)
   \<and> run_workflow (env_discovery_raising (HTTPError ''connection refused''))
      ''Machine Learning'' crewai_url langgraph_url world0 =
     (Inl (Exception (NetworkError ''connection refused'') (HTTPError ''connection refused'')),
      \<lparr> uuid_count = 0, net_log = [GetAgentCard crewai_url] \<rparr>)
   \<and> run pipeline_env crewai_url ''Machine Learning'' default_timeout None None world0 =
     (Inr five_questions,
      \<lparr> uuid_count = 2,
        net_log = [GetAgentCard crewai_url,
                   SendMessage crewai_url
                     (build_request pipeline_env ''Machine Learning'' None None 0)] \<rparr>)
   \<and> run_workflow pipeline_env ''Machine Learning'' crewai_url langgraph_url world0 =
     (Inr (header 5 example_now @ latex_document),
      \<lparr> uuid_count = 4,
        net_log = [GetAgentCard crewai_url,
                   SendMessage crewai_url
                     (build_request pipeline_env ''Machine Learning'' None None 0),
                   GetAgentCard langgraph_url,
                   SendMessage langgraph_url
                     (build_request pipeline_env five_questions None None 2)] \<rparr>)"
proof -
  have a: "run (env_discovery_raising (HTTPError ''connection refused'')) crewai_url
      ''Machine Learning'' default_timeout None None world0 =
     (Inl (Exception (NetworkError ''connection refused'') (HTTPError ''connection refused'')),
      \<lparr> uuid_count = 0, net_log = [GetAgentCard crewai_url] \<rparr>)"
    by (simp add: run_def env_discovery_raising_def world0_def)
  show ?thesis
    using a run_workflow_sequential [OF a, of langgraph_url]
      run_pipeline_stage1 run_workflow_sequential [OF run_pipeline_stage1, of langgraph_url]
      run_pipeline_stage2
    by simp
qed

section \<open>The agent executors\<close>

text \<open>
  C2. When the user text is empty or holds nothing but whitespace, \<open>execute\<close> of either
  executor raises \<open>ServerError(error=InvalidParamsError())\<close> and the event queue is as
  it was: no task was made, nothing was published, whatever \<open>new_task\<close> would return.
\<close>

theorem execute_rejects_blank_input:
  assumes "get_user_input ctx = Inr user_input" and "\<forall>c\<in>set user_input. isspace c"
  shows "crewai_execute generate_questions new_task ctx queue =
           (Inl (ServerError InvalidParamsError None), queue)
         \<and> langgraph_execute generate_content now new_task ctx queue =
           (Inl (ServerError InvalidParamsError None), queue)"
  using validate_blank [OF assms] by (simp add: crewai_execute_def langgraph_execute_def)

theorem execute_rejects_blank_input_witness:
  "get_user_input (example_context ('' '' @ [newline] @ ''  '')) = Inr ('' '' @ [newline] @ ''  '')
   \<and> list_all isspace ('' '' @ [newline] @ ''  '')
   \<and> crewai_execute (answering_backend ''1. Q'') example_new_task
        (example_context ('' '' @ [newline] @ ''  '')) [] =
        (Inl (ServerError InvalidParamsError None), [])
   \<and> langgraph_execute (answering_backend latex_document) example_now example_new_task
        (example_context ('' '' @ [newline] @ ''  '')) [] =
        (Inl (ServerError InvalidParamsError None), [])"
proof -
  have a: "get_user_input (example_context ('' '' @ [newline] @ ''  '')) =
      Inr ('' '' @ [newline] @ ''  '')"
    by (simp add: example_context_def)
  have b: "\<forall>c\<in>set ('' '' @ [newline] @ ''  ''). isspace c"
    by (simp add: isspace_def newline_def)
  have l: "list_all isspace ('' '' @ [newline] @ ''  '')"
    by (simp add: isspace_def newline_def)
  show ?thesis
    using a b l
      execute_rejects_blank_input [where ctx = "example_context ('' '' @ [newline] @ ''  '')"
        and user_input = "'' '' @ [newline] @ ''  ''"
        and generate_questions = "answering_backend ''1. Q''" and new_task = example_new_task
        and queue = "[]" and generate_content = "answering_backend latex_document"
        and now = example_now]
    by simp
qed

text \<open>
  C3. For a valid request whose backend call returns, the effects of \<open>execute\<close> are, in
  this order: the new task, if the request had none; the working transition with its
  progress message (two of them in the LaTeX executor); the call of the backend; one
  artifact, the result as a single text part under the name of the stage; the
  completion.
\<close>

theorem execute_publication_order:
  assumes "get_user_input ctx = Inr user_input" and "strip user_input \<noteq> []"
    and "current_task ctx = Some t
         \<or> (current_task ctx = None \<and> new_task (message ctx) = Inr t)"
  shows "(generate_questions user_input = Inr result \<longrightarrow>
            crewai_execute generate_questions new_task ctx queue =
              (Inr (),
               queue @ (if current_task ctx = None then [EnqueueEvent t] else [])
               @ [UpdateStatus (ident t) (task_context_id t) working
                    \<lparr> msg_text = ''Generating educational questions...'',
                      msg_context_id = task_context_id t, msg_task_id = ident t \<rparr>,
                  Generate user_input,
                  AddArtifact (ident t) (task_context_id t) [Part (TextPart result)]
                    ''generated_questions'',
                  Complete (ident t) (task_context_id t)]))
         \<and> (convert_to_latex generate_content now user_input = Inr code \<longrightarrow>
            langgraph_execute generate_content now new_task ctx queue =
              (Inr (),
               queue @ (if current_task ctx = None then [EnqueueEvent t] else [])
               @ [UpdateStatus (ident t) (task_context_id t) working
                    \<lparr> msg_text = ''Parsing questions...'',
                      msg_context_id = task_context_id t, msg_task_id = ident t \<rparr>,
                  UpdateStatus (ident t) (task_context_id t) working
                    \<lparr> msg_text = ''Converting to LaTeX format...'',
                      msg_context_id = task_context_id t, msg_task_id = ident t \<rparr>,
                  Generate user_input,
                  AddArtifact (ident t) (task_context_id t) [Part (TextPart code)]
                    ''latex_document'',
                  Complete (ident t) (task_context_id t)]))"
  using valid_input [OF assms(1,2)] assms(1) resolve_task [of ctx t new_task queue] assms(3)
  by (simp add: crewai_execute_def langgraph_execute_def progress_def)

theorem execute_publication_order_witness:
  "get_user_input (example_context five_questions) = Inr five_questions
   \<and> strip five_questions \<noteq> []
   \<and> current_task (example_context five_questions) = None
   \<and> convert_to_latex (answering_backend latex_document) example_now five_questions =
       Inr (header 5 example_now @ latex_document)
   \<and> crewai_execute (answering_backend ''1. Why?'') example_new_task
       (example_context five_questions) [] =
       (Inr (),
        [EnqueueEvent example_task,
         UpdateStatus ''task-1'' ''ctx-1'' working
           \<lparr> msg_text = ''Generating educational questions...'',
             msg_context_id = ''ctx-1'', msg_task_id = ''task-1'' \<rparr>,
         Generate five_questions,
         AddArtifact ''task-1'' ''ctx-1'' [Part (TextPart ''1. Why?'')] ''generated_questions'',
         Complete ''task-1'' ''ctx-1''])
   \<and> langgraph_execute (answering_backend latex_document) example_now example_new_task
       (example_context five_questions) [] =
       (Inr (),
        [EnqueueEvent example_task,
         UpdateStatus ''task-1'' ''ctx-1'' working
           \<lparr> msg_text = ''Parsing questions...'',
             msg_context_id = ''ctx-1'', msg_task_id = ''task-1'' \<rparr>,
         UpdateStatus ''task-1'' ''ctx-1'' working
           \<lparr> msg_text = ''Converting to LaTeX format...'',
             msg_context_id = ''ctx-1'', msg_task_id = ''task-1'' \<rparr>,
         Generate five_questions,
         AddArtifact ''task-1'' ''ctx-1'' [Part (TextPart (header 5 example_now @ latex_document))]
           ''latex_document'',
         Complete ''task-1'' ''ctx-1''])"
proof -
  have a: "get_user_input (example_context five_questions) = Inr five_questions"
    by (simp add: example_context_def)
  have c: "current_task (example_context five_questions) = Some example_task
      \<or> (current_task (example_context five_questions) = None
         \<and> example_new_task (message (example_context five_questions)) = Inr example_task)"
    by (simp add: example_context_def example_new_task_def)
  have n: "current_task (example_context five_questions) = None"
    by (simp add: example_context_def)
  show ?thesis
    using a c n five_questions_valid convert_five_questions
      execute_publication_order [where ctx = "example_context five_questions"
        and user_input = five_questions and t = example_task and new_task = example_new_task
        and generate_questions = "answering_backend ''1. Why?''" and result = "''1. Why?''"
        and queue = "[]" and generate_content = "answering_backend latex_document"
        and now = example_now and code = "header 5 example_now @ latex_document"]
    by (simp add: example_task_def answering_backend_def)
qed

text \<open>
  C4, as the code has it. For a valid request whose backend call raises, \<open>execute\<close>
  raises \<open>ServerError(error=InternalError())\<close> from that exception, and nothing is
  published after the working transition: no artifact, no completion and no failed
  state.
\<close>

theorem execute_backend_failure:
  assumes "get_user_input ctx = Inr user_input" and "strip user_input \<noteq> []"
    and "current_task ctx = Some t
         \<or> (current_task ctx = None \<and> new_task (message ctx) = Inr t)"
  shows "(generate_questions user_input = Inl ex \<longrightarrow>
            crewai_execute generate_questions new_task ctx queue =
              (Inl (ServerError InternalError (Some ex)),
               queue @ (if current_task ctx = None then [EnqueueEvent t] else [])
               @ [UpdateStatus (ident t) (task_context_id t) working
                    \<lparr> msg_text = ''Generating educational questions...'',
                      msg_context_id = task_context_id t, msg_task_id = ident t \<rparr>,
                  Generate user_input]))
         \<and> (convert_to_latex generate_content now user_input = Inl ex \<longrightarrow>
            langgraph_execute generate_content now new_task ctx queue =
              (Inl (ServerError InternalError (Some ex)),
               queue @ (if current_task ctx = None then [EnqueueEvent t] else [])
               @ [UpdateStatus (ident t) (task_context_id t) working
                    \<lparr> msg_text = ''Parsing questions...'',
                      msg_context_id = task_context_id t, msg_task_id = ident t \<rparr>,
                  UpdateStatus (ident t) (task_context_id t) working
                    \<lparr> msg_text = ''Converting to LaTeX format...'',
                      msg_context_id = task_context_id t, msg_task_id = ident t \<rparr>,
                  Generate user_input]))"
  using valid_input [OF assms(1,2)] assms(1) resolve_task [of ctx t new_task queue] assms(3)
  by (simp add: crewai_execute_def langgraph_execute_def progress_def)

theorem execute_backend_failure_witness:
  "get_user_input (example_context five_questions) = Inr five_questions
   \<and> strip five_questions \<noteq> []
   \<and> current_task (example_context five_questions) = None
   \<and> convert_to_latex (failing_backend (OtherException ''quota exceeded'')) example_now
       five_questions = Inl (OtherException ''quota exceeded'')
   \<and> crewai_execute (failing_backend (OtherException ''quota exceeded'')) example_new_task
       (example_context five_questions) [] =
       (Inl (ServerError InternalError (Some (OtherException ''quota exceeded''))),
        [EnqueueEvent example_task,
         UpdateStatus ''task-1'' ''ctx-1'' working
           \<lparr> msg_text = ''Generating educational questions...'',
             msg_context_id = ''ctx-1'', msg_task_id = ''task-1'' \<rparr>,
         Generate five_questions])
   \<and> langgraph_execute (failing_backend (OtherException ''quota exceeded'')) example_now
       example_new_task (example_context five_questions) [] =
       (Inl (ServerError InternalError (Some (OtherException ''quota exceeded''))),
        [EnqueueEvent example_task,
         UpdateStatus ''task-1'' ''ctx-1'' working
           \<lparr> msg_text = ''Parsing questions...'',
             msg_context_id = ''ctx-1'', msg_task_id = ''task-1'' \<rparr>,
         UpdateStatus ''task-1'' ''ctx-1'' working
           \<lparr> msg_text = ''Converting to LaTeX format...'',
             msg_context_id = ''ctx-1'', msg_task_id = ''task-1'' \<rparr>,
         Generate five_questions])"
proof -
  have a: "get_user_input (example_context five_questions) = Inr five_questions"
    by (simp add: example_context_def)
  have c: "current_task (example_context five_questions) = Some example_task
      \<or> (current_task (example_context five_questions) = None
         \<and> example_new_task (message (example_context five_questions)) = Inr example_task)"
    by (simp add: example_context_def example_new_task_def)
  have n: "current_task (example_context five_questions) = None"
    by (simp add: example_context_def)
  have f: "convert_to_latex (failing_backend (OtherException ''quota exceeded'')) example_now
       five_questions = Inl (OtherException ''quota exceeded'')"
    by (simp add: convert_to_latex_def parse_questions_def convert_to_latex_node_def Let_def
        failing_backend_def)
  show ?thesis
    using a c n f five_questions_valid
      execute_backend_failure [where ctx = "example_context five_questions"
        and user_input = five_questions and t = example_task and new_task = example_new_task
        and generate_questions = "failing_backend (OtherException ''quota exceeded'')"
        and ex = "OtherException ''quota exceeded''" and queue = "[]"
        and generate_content = "failing_backend (OtherException ''quota exceeded'')"
        and now = example_now]
    by (simp add: example_task_def failing_backend_def)
qed

text \<open>
  C4 as written fails: the backend raises, and the states published for the task
  are submitted and working; the task does not advance to failed.
\<close>

theorem execute_failed_state_counterexample:
  "crewai_execute (failing_backend (OtherException ''quota exceeded'')) example_new_task
     (example_context ''Machine Learning'') [] =
     (Inl (ServerError InternalError (Some (OtherException ''quota exceeded''))),
      [EnqueueEvent example_task,
       UpdateStatus ''task-1'' ''ctx-1'' working
         \<lparr> msg_text = ''Generating educational questions...'',
           msg_context_id = ''ctx-1'', msg_task_id = ''task-1'' \<rparr>,
       Generate ''Machine Learning''])
   \<and> published_states (snd (crewai_execute (failing_backend (OtherException ''quota exceeded''))
        example_new_task (example_context ''Machine Learning'') [])) =
       [submitted, working]"
  by (simp add: crewai_execute_def validate_request_def example_context_def strip_def
      isspace_def create_or_retrieve_task_def progress_def example_task_def
      example_new_task_def failing_backend_def)

text \<open>
  C6. \<open>cancel\<close> of either executor raises \<open>ServerError(error=UnsupportedOperationError())\<close>
  for every request, with or without a current task and whatever its state, and leaves
  the event queue as it was.
\<close>

theorem cancel_always_unsupported:
  "crewai_cancel ctx queue = (Inl (ServerError UnsupportedOperationError None), queue)
   \<and> langgraph_cancel ctx queue = (Inl (ServerError UnsupportedOperationError None), queue)"
  by (simp add: crewai_cancel_def langgraph_cancel_def)

section \<open>The end-to-end scenario\<close>



end
